theory Spec2Isabelle
  imports Complex_Main
begin

section \<open>Service monitor: \<^verbatim>\<open>network/api-monitor/monitor.py\<close>\<close>

text \<open>
  A shallow embedding of the availability monitor. Conventions of the model:
  \<^item> a Python \<^verbatim>\<open>float\<close> is a \<^typ>\<open>real\<close>: rounding, infinities and NaN are outside the model;
  \<^item> a Python \<^verbatim>\<open>int\<close> is an \<^typ>\<open>int\<close>;
  \<^item> a Python \<^verbatim>\<open>str\<close> is a \<^typ>\<open>string\<close>, read as its UTF-8 bytes (a letter beyond ASCII in a
    message of the source is written byte by byte);
  \<^item> \<^verbatim>\<open>Optional[str]\<close> is \<^typ>\<open>string option\<close>;
  \<^item> an exception is a value: a function that can raise returns \<open>exn + 'a\<close>;
  \<^item> what the outside world does during one check (the network, the clocks, the signal) is
    an explicit argument;
  \<^item> what the program does to the outside world (requests, sockets, printed lines, log lines)
    is a list of events, in the order the program performs them. A printed line is an event
    that carries the values the line renders, not its text.
\<close>

subsection \<open>Exceptions\<close>

text \<open>
  The classes that the handlers of the source tell apart, and the classes the modelled
  operations raise. \<open>RequestsConnectTimeout\<close> is a subclass of both
  \<^verbatim>\<open>requests.exceptions.Timeout\<close> and \<^verbatim>\<open>requests.exceptions.ConnectionError\<close>.
  Every class here is a subclass of \<^verbatim>\<open>Exception\<close>: the constructor of the monitor replaces
  the handler of SIGINT, so no \<^verbatim>\<open>KeyboardInterrupt\<close> is raised.
\<close>

datatype exn_class =
    RequestsTimeout
  | RequestsConnectTimeout
  | RequestsConnectionError
  | SocketTimeout
  | SocketGaierror
  | SubprocessTimeoutExpired
  | ValueError
  | IndexError
  | OverflowError
  | OSError
  | UnicodeDecodeError
  | ZeroDivisionError
  | OtherException

text \<open>An exception: its class and \<^verbatim>\<open>str(e)\<close>.\<close>

datatype exn = Exn exn_class string

fun is_requests_Timeout :: "exn_class \<Rightarrow> bool" where
  "is_requests_Timeout RequestsTimeout = True"
| "is_requests_Timeout RequestsConnectTimeout = True"
| "is_requests_Timeout _ = False"

fun is_requests_ConnectionError :: "exn_class \<Rightarrow> bool" where
  "is_requests_ConnectionError RequestsConnectionError = True"
| "is_requests_ConnectionError RequestsConnectTimeout = True"
| "is_requests_ConnectionError _ = False"

subsection \<open>Text helpers of the Python runtime\<close>

text \<open>The character of a decimal digit \<open>d < 10\<close>.\<close>

definition digit_char :: "nat \<Rightarrow> char" where
  "digit_char d = ''0123456789'' ! d"

fun show_nat :: "nat \<Rightarrow> string" where
  "show_nat n = (if n < 10 then [digit_char n] else show_nat (n div 10) @ [digit_char (n mod 10)])"

declare show_nat.simps [simp del]

text \<open>\<^verbatim>\<open>str(i)\<close> of an integer.\<close>

definition show_int :: "int \<Rightarrow> string" where
  "show_int i = (if i < 0 then CHR ''-'' # show_nat (nat (- i)) else show_nat (nat i))"

text \<open>The truth value of an \<^verbatim>\<open>Optional[str]\<close>: \<^verbatim>\<open>None\<close> and the empty string are false.\<close>

fun truthy :: "string option \<Rightarrow> bool" where
  "truthy None = False"
| "truthy (Some s) = (s \<noteq> [])"

text \<open>An \<^verbatim>\<open>Optional[str]\<close> inside an f-string: \<^verbatim>\<open>None\<close> is rendered as the text None.\<close>

fun format_opt :: "string option \<Rightarrow> string" where
  "format_opt None = ''None''"
| "format_opt (Some s) = s"

text \<open>The slice \<^verbatim>\<open>s[:-3]\<close>.\<close>

definition drop_last3 :: "string \<Rightarrow> string" where
  "drop_last3 s = take (length s - 3) s"

text \<open>
  Functions of the Python runtime that the source calls and the model does not unfold: they
  are parameters.
  \<^item> \<open>format_2f x\<close> is \<^verbatim>\<open>f"{x:.2f}"\<close>, \<open>str_float x\<close> is \<^verbatim>\<open>str(x)\<close> of a float;
  \<^item> \<open>float_of_str s\<close> is \<^verbatim>\<open>float(s)\<close>, with \<open>None\<close> for \<^verbatim>\<open>ValueError\<close>;
  \<^item> \<open>int_max_str_digits\<close> is \<^verbatim>\<open>sys.get_int_max_str_digits()\<close> (0: no limit);
  \<^item> \<open>int_non_ascii s\<close> is \<^verbatim>\<open>int(s)\<close> for a text with a character beyond ASCII (Python reads
    every Unicode decimal digit and strips every Unicode space), \<open>None\<close> for \<^verbatim>\<open>ValueError\<close>;
  \<^item> \<open>int_error_text s\<close> is \<^verbatim>\<open>str(e)\<close> of the \<^verbatim>\<open>ValueError\<close> that \<^verbatim>\<open>int(s)\<close> raises.
\<close>

record py_runtime =
  format_2f :: "real \<Rightarrow> string"
  str_float :: "real \<Rightarrow> string"
  float_of_str :: "string \<Rightarrow> real option"
  int_max_str_digits :: nat
  int_non_ascii :: "string \<Rightarrow> int option"
  int_error_text :: "string \<Rightarrow> string"

text \<open>True division \<^verbatim>\<open>a / b\<close> of two integers.\<close>

definition truediv :: "int \<Rightarrow> int \<Rightarrow> exn + real" where
  "truediv a b =
     (if b = 0 then Inl (Exn ZeroDivisionError ''division by zero'')
      else Inr (real_of_int a / real_of_int b))"

subsection \<open>\<^verbatim>\<open>MonitorStats\<close>\<close>

record MonitorStats =
  total_checks :: int
  successful_checks :: int
  failed_checks :: int
  response_times :: "real list"
  downtime_events :: "string list"
  start_time :: real

text \<open>\<^verbatim>\<open>MonitorStats()\<close>: the defaults and \<^verbatim>\<open>__post_init__\<close>; \<open>now\<close> is \<^verbatim>\<open>time.time()\<close>.\<close>

definition MonitorStats_init :: "real \<Rightarrow> MonitorStats" where
  "MonitorStats_init now =
     \<lparr>total_checks = 0, successful_checks = 0, failed_checks = 0,
      response_times = [], downtime_events = [], start_time = now\<rparr>"

definition get_uptime_percentage :: "MonitorStats \<Rightarrow> exn + real" where
  "get_uptime_percentage s =
     (if total_checks s = 0 then Inr 0.0
      else (case truediv (successful_checks s) (total_checks s) of
              Inl e \<Rightarrow> Inl e
            | Inr q \<Rightarrow> Inr (q * 100)))"

text \<open>\<^verbatim>\<open>statistics.mean\<close> and \<^verbatim>\<open>statistics.median\<close> of a list that is not empty.\<close>

definition mean :: "real list \<Rightarrow> real" where
  "mean xs = sum_list xs / real (length xs)"

definition median :: "real list \<Rightarrow> real" where
  "median xs =
     (let ys = sort xs; n = length ys in
      if n mod 2 = 1 then ys ! (n div 2)
      else (ys ! (n div 2 - 1) + ys ! (n div 2)) / 2)"

definition get_avg_response_time :: "MonitorStats \<Rightarrow> real" where
  "get_avg_response_time s = (if response_times s = [] then 0.0 else mean (response_times s))"

definition get_median_response_time :: "MonitorStats \<Rightarrow> real" where
  "get_median_response_time s =
     (if response_times s = [] then 0.0 else median (response_times s))"

subsection \<open>Recording one check\<close>

text \<open>The result of one check: \<^verbatim>\<open>(success, response_time, error_msg)\<close>.\<close>

type_synonym outcome = "bool \<times> real \<times> string option"

text \<open>
  Lines 298 to 305 of \<^verbatim>\<open>run\<close>: the update of the statistics after one check. \<open>now\<close> is
  \<^verbatim>\<open>datetime.now().strftime('%Y-%m-%d %H:%M:%S.%f')\<close>.
\<close>

fun record_check :: "MonitorStats \<Rightarrow> outcome \<Rightarrow> string \<Rightarrow> MonitorStats" where
  "record_check s (success, response_time, error_msg) now =
     (let s1 = s\<lparr>total_checks := total_checks s + 1\<rparr> in
      if success then
        s1\<lparr>successful_checks := successful_checks s1 + 1,
           response_times := response_times s1 @ [response_time]\<rparr>
      else
        (let downtime_event = drop_last3 now @ '' - '' @ format_opt error_msg in
         s1\<lparr>failed_checks := failed_checks s1 + 1,
            downtime_events := downtime_events s1 @ [downtime_event]\<rparr>))"

subsection \<open>Text operations used by the checks\<close>

text \<open>
  The ASCII characters that \<^verbatim>\<open>str.split()\<close> takes as separators: tab, line feed, vertical
  tab, form feed, carriage return, the four separators 0x1C to 0x1F, and space.
\<close>

definition is_space :: "char \<Rightarrow> bool" where
  "is_space c = ((of_char c :: nat) \<in> {9, 10, 11, 12, 13, 28, 29, 30, 31, 32})"

text \<open>
  The ASCII characters that \<^verbatim>\<open>int()\<close> skips around a literal: tab, line feed, vertical tab,
  form feed, carriage return and space. The separators 0x1C to 0x1F are not among them:
  \<^verbatim>\<open>int\<close> raises \<^verbatim>\<open>ValueError\<close> on the character 0x1C followed by 80.
\<close>

definition is_int_space :: "char \<Rightarrow> bool" where
  "is_int_space c = ((of_char c :: nat) \<in> {9, 10, 11, 12, 13, 32})"

definition is_digit :: "char \<Rightarrow> bool" where
  "is_digit c = (48 \<le> (of_char c :: nat) \<and> (of_char c :: nat) \<le> 57)"

definition digit_val :: "char \<Rightarrow> int" where
  "digit_val c = int (of_char c) - 48"

definition is_ascii :: "char \<Rightarrow> bool" where
  "is_ascii c = ((of_char c :: nat) < 128)"

text \<open>The text that \<^verbatim>\<open>int()\<close> reads once the spaces around it are skipped.\<close>

definition int_strip :: "string \<Rightarrow> string" where
  "int_strip s = rev (dropWhile is_int_space (rev (dropWhile is_int_space s)))"

text \<open>The digits of a decimal literal after its first digit is known to be one: single underscores may stand between digits.\<close>

fun int_digits :: "int \<Rightarrow> string \<Rightarrow> int option" where
  "int_digits acc [] = Some acc"
| "int_digits acc [c] = (if is_digit c then Some (acc * 10 + digit_val c) else None)"
| "int_digits acc (c # d # cs) =
     (if is_digit c then int_digits (acc * 10 + digit_val c) (d # cs)
      else if c = CHR ''_'' \<and> is_digit d then int_digits acc (d # cs)
      else None)"

definition int_body :: "string \<Rightarrow> int option" where
  "int_body s = (case s of [] \<Rightarrow> None | c # cs \<Rightarrow> if is_digit c then int_digits 0 s else None)"

text \<open>
  \<^verbatim>\<open>int(s)\<close> in base 10, on an ASCII text: the spaces around the literal skipped, an optional
  sign, the digits; \<open>None\<close> is \<^verbatim>\<open>ValueError\<close>. A literal with more digits than \<open>max_digits\<close>
  (when that is not 0) is refused.
\<close>

definition int_ascii :: "nat \<Rightarrow> string \<Rightarrow> int option" where
  "int_ascii max_digits s =
     (let t = int_strip s;
          neg = (case t of [] \<Rightarrow> False | c # cs \<Rightarrow> c = CHR ''-'');
          body = (case t of [] \<Rightarrow> [] | c # cs \<Rightarrow> if c = CHR ''-'' \<or> c = CHR ''+'' then cs else t)
      in case int_body body of
           None \<Rightarrow> None
         | Some v \<Rightarrow>
             if max_digits \<noteq> 0 \<and> max_digits < length (filter is_digit body) then None
             else Some (if neg then - v else v))"

definition py_int :: "py_runtime \<Rightarrow> string \<Rightarrow> exn + int" where
  "py_int rt s =
     (case (if list_all is_ascii s then int_ascii (int_max_str_digits rt) s
            else int_non_ascii rt s) of
        None \<Rightarrow> Inl (Exn ValueError (int_error_text rt s))
      | Some v \<Rightarrow> Inr v)"

text \<open>\<^verbatim>\<open>s.rsplit(':', 1)\<close> of a text that has a colon: the text before the last colon, the text after it.\<close>

definition rsplit_colon :: "string \<Rightarrow> string \<times> string" where
  "rsplit_colon s =
     (let port = rev (takeWhile (\<lambda>c. c \<noteq> CHR '':'') (rev s))
      in (take (length s - length port - 1) s, port))"

text \<open>\<^verbatim>\<open>s.partition(sep)\<close>: the text before the first \<open>sep\<close> and the text after it; \<open>None\<close> when \<open>sep\<close> is not in \<open>s\<close>.\<close>

fun partition_sep :: "string \<Rightarrow> string \<Rightarrow> (string \<times> string) option" where
  "partition_sep sep [] = (if sep = [] then Some ([], []) else None)"
| "partition_sep sep (c # cs) =
     (if take (length sep) (c # cs) = sep then Some ([], drop (length sep) (c # cs))
      else map_option (\<lambda>(b, a). (c # b, a)) (partition_sep sep cs))"

text \<open>\<^verbatim>\<open>s.split(sep)[1]\<close>, for a text that contains \<open>sep\<close>.\<close>

definition split_second :: "string \<Rightarrow> string \<Rightarrow> string option" where
  "split_second sep s =
     (case partition_sep sep s of
        None \<Rightarrow> None
      | Some (b, a) \<Rightarrow> (case partition_sep sep a of None \<Rightarrow> Some a | Some (b', a') \<Rightarrow> Some b'))"

text \<open>\<^verbatim>\<open>s.split()[0]\<close> (ASCII spaces): \<open>None\<close> is the \<^verbatim>\<open>IndexError\<close> of a text with no word.\<close>

definition first_word :: "string \<Rightarrow> string option" where
  "first_word s =
     (let w = takeWhile (\<lambda>c. \<not> is_space c) (dropWhile is_space s)
      in if w = [] then None else Some w)"

text \<open>\<^verbatim>\<open>s.replace('ms', '')\<close>.\<close>

fun remove_ms :: "string \<Rightarrow> string" where
  "remove_ms (a # b # cs) =
     (if a = CHR ''m'' \<and> b = CHR ''s'' then remove_ms cs else a # remove_ms (b # cs))"
| "remove_ms cs = cs"

definition lower_char :: "char \<Rightarrow> char" where
  "lower_char c =
     (if 65 \<le> (of_char c :: nat) \<and> (of_char c :: nat) \<le> 90 then char_of ((of_char c :: nat) + 32)
      else c)"

text \<open>\<^verbatim>\<open>platform.system().lower() == 'windows'\<close>.\<close>

definition is_windows :: "string \<Rightarrow> bool" where
  "is_windows sys = (map lower_char sys = ''windows'')"

text \<open>\<^verbatim>\<open>int(x)\<close> of a float: truncation towards zero.\<close>

definition trunc :: "real \<Rightarrow> int" where
  "trunc x = (if 0 \<le> x then \<lfloor>x\<rfloor> else \<lceil>x\<rceil>)"

subsection \<open>\<^verbatim>\<open>ServiceMonitor\<close>\<close>

record ServiceMonitor =
  target :: string
  check_type :: string
  interval :: real
  timeout :: real
  threshold :: real
  log_file :: "string option"
  verify_ssl :: bool
  stats :: MonitorStats
  running :: bool

text \<open>\<^verbatim>\<open>ServiceMonitor.__init__\<close>; \<open>now\<close> is the \<^verbatim>\<open>time.time()\<close> read by \<^verbatim>\<open>MonitorStats()\<close>.\<close>

definition ServiceMonitor_init ::
  "string \<Rightarrow> string \<Rightarrow> real \<Rightarrow> real \<Rightarrow> real \<Rightarrow> string option \<Rightarrow> bool \<Rightarrow> real \<Rightarrow> ServiceMonitor" where
  "ServiceMonitor_init tgt ctype intv tmo thr lf vssl now =
     \<lparr>target = tgt, check_type = ctype, interval = intv, timeout = tmo, threshold = thr,
      log_file = lf, verify_ssl = vssl, stats = MonitorStats_init now, running = True\<rparr>"

subsection \<open>The outside world and the events of the program\<close>

text \<open>
  What the world does during one check:
  \<^item> \<open>perf_start\<close>, \<open>perf_end\<close>: the two readings of \<^verbatim>\<open>time.perf_counter()\<close> around the call;
  \<^item> \<open>requests_get\<close>: \<^verbatim>\<open>requests.get\<close> raises, or returns a response with this status code;
  \<^item> \<open>socket_new\<close>: \<^verbatim>\<open>socket.socket\<close> raises, or returns a socket;
  \<^item> \<open>connect_ex host port\<close>: \<^verbatim>\<open>sock.connect_ex\<close> raises, or returns this code;
  \<^item> \<open>platform_system\<close>: \<^verbatim>\<open>platform.system()\<close>;
  \<^item> \<open>subprocess_run\<close>: \<^verbatim>\<open>subprocess.run\<close> raises, or returns the exit code of ping and
    what \<^verbatim>\<open>stdout.decode()\<close> does (raises, or the text).
\<close>

record probe_env =
  perf_start :: real
  perf_end :: real
  requests_get :: "exn + int"
  socket_new :: "exn option"
  connect_ex :: "string \<Rightarrow> int \<Rightarrow> exn + int"
  platform_system :: string
  subprocess_run :: "exn + int \<times> (exn + string)"

datatype color = GREEN | RED | YELLOW

text \<open>The three status labels of \<^verbatim>\<open>_print_status\<close>; \<open>LENTO\<close> is the slow verdict.\<close>

datatype status = UP | LENTO | DOWN

text \<open>What \<^verbatim>\<open>_print_statistics\<close> prints.\<close>

record summary =
  duration :: real
  sum_total :: int
  sum_successful :: int
  sum_failed :: int
  uptime :: real
  latency :: "(real \<times> real \<times> real \<times> real) option"
  downtime :: "(nat \<times> string list \<times> nat option) option"
  log_note :: "string option"

datatype event =
    HttpGet string real bool
  | SocketOpen
  | SocketSetTimeout real
  | SocketConnect string int
  | SocketClose
  | PingRun "string list" real
  | Banner string string real real real "bool option" "string option"
  | Interrupt
  | StatusLine string color status string
  | LogLine string string string
  | Sleep real
  | Statistics summary

subsection \<open>The checks\<close>

definition elapsed_ms :: "probe_env \<Rightarrow> real" where
  "elapsed_ms env = (perf_end env - perf_start env) * 1000"

text \<open>The handlers of \<^verbatim>\<open>_check_http\<close>, in the order of the source.\<close>

fun http_except :: "ServiceMonitor \<Rightarrow> exn \<Rightarrow> outcome" where
  "http_except m (Exn c msg) =
     (if is_requests_Timeout c then (False, timeout m * 1000, Some ''Timeout'')
      else if is_requests_ConnectionError c then (False, 0.0, Some (''Connection Error: '' @ msg))
      else (False, 0.0, Some (''Error: '' @ msg)))"

definition check_http :: "ServiceMonitor \<Rightarrow> probe_env \<Rightarrow> outcome \<times> event list" where
  "check_http m env =
     (case requests_get env of
        Inl e \<Rightarrow> http_except m e
      | Inr status_code \<Rightarrow>
          if 200 \<le> status_code \<and> status_code < 400 then (True, elapsed_ms env, None)
          else (False, elapsed_ms env, Some (''HTTP '' @ show_int status_code)),
      [HttpGet (target m) (timeout m) (verify_ssl m)])"

text \<open>The handlers of \<^verbatim>\<open>_check_tcp\<close>.\<close>

fun tcp_except :: "ServiceMonitor \<Rightarrow> exn \<Rightarrow> outcome" where
  "tcp_except m (Exn c msg) =
     (if c = SocketTimeout then (False, timeout m * 1000, Some ''Timeout'')
      else if c = SocketGaierror then (False, 0.0, Some ''DNS resolution failed'')
      else (False, 0.0, Some (''Error: '' @ msg)))"

definition invalid_format :: string where
  "invalid_format = ''Formato inv'' @ [CHR 0xC3, CHR 0xA1] @ ''lido. Use host:porta''"

definition check_tcp :: "py_runtime \<Rightarrow> ServiceMonitor \<Rightarrow> probe_env \<Rightarrow> outcome \<times> event list" where
  "check_tcp rt m env =
     (if CHR '':'' \<in> set (target m) then
        (case rsplit_colon (target m) of (host, port_text) \<Rightarrow>
           (case py_int rt port_text of
              Inl e \<Rightarrow> (tcp_except m e, [])
            | Inr port \<Rightarrow>
                (case socket_new env of
                   Some e \<Rightarrow> (tcp_except m e, [])
                 | None \<Rightarrow>
                     if timeout m < 0 then
                       (tcp_except m (Exn ValueError ''Timeout value out of range''), [SocketOpen])
                     else
                       (case connect_ex env host port of
                          Inl e \<Rightarrow>
                            (tcp_except m e,
                             [SocketOpen, SocketSetTimeout (timeout m), SocketConnect host port])
                        | Inr result \<Rightarrow>
                            (if result = 0 then (True, elapsed_ms env, None)
                             else (False, elapsed_ms env,
                                   Some (''Connection refused (code: '' @ show_int result @ '')'')),
                             [SocketOpen, SocketSetTimeout (timeout m), SocketConnect host port,
                              SocketClose])))))
      else ((False, 0.0, Some invalid_format), []))"

text \<open>The handlers of \<^verbatim>\<open>_check_icmp\<close>.\<close>

fun icmp_except :: "ServiceMonitor \<Rightarrow> exn \<Rightarrow> outcome" where
  "icmp_except m (Exn c msg) =
     (if c = SubprocessTimeoutExpired then (False, timeout m * 1000, Some ''Timeout'')
      else (False, 0.0, Some (''Error: '' @ msg)))"

text \<open>
  The round-trip time that ping printed: \<^verbatim>\<open>float(output.split('time=')[1].split()[0].replace('ms', ''))\<close>;
  \<open>None\<close> when any step raises (the bare \<^verbatim>\<open>except\<close> of the source passes).
\<close>

definition ping_time :: "py_runtime \<Rightarrow> string \<Rightarrow> real option" where
  "ping_time rt output =
     (case split_second ''time='' output of
        None \<Rightarrow> None
      | Some piece \<Rightarrow>
          (case first_word piece of
             None \<Rightarrow> None
           | Some time_str \<Rightarrow> float_of_str rt (remove_ms time_str)))"

definition check_icmp :: "py_runtime \<Rightarrow> ServiceMonitor \<Rightarrow> probe_env \<Rightarrow> outcome \<times> event list" where
  "check_icmp rt m env =
     (let param = (if is_windows (platform_system env) then ''-n'' else ''-c'');
          timeout_param = (if is_windows (platform_system env) then ''-w'' else ''-W'');
          cmd = [''ping'', param, ''1'', timeout_param, show_int (trunc (timeout m)), target m]
      in (case subprocess_run env of
            Inl e \<Rightarrow> icmp_except m e
          | Inr (returncode, stdout) \<Rightarrow>
              if returncode = 0 then
                (case stdout of
                   Inl e \<Rightarrow> icmp_except m e
                 | Inr output \<Rightarrow>
                     if partition_sep ''time='' output \<noteq> None then
                       (case ping_time rt output of
                          Some actual_time \<Rightarrow> (True, actual_time, None)
                        | None \<Rightarrow> (True, elapsed_ms env, None))
                     else (True, elapsed_ms env, None))
              else (False, elapsed_ms env, Some ''Host unreachable''),
          [PingRun cmd (timeout m + 1)]))"

definition invalid_type :: string where
  "invalid_type =
     ''Tipo de verifica'' @ [CHR 0xC3, CHR 0xA7, CHR 0xC3, CHR 0xA3] @ ''o inv'' @
     [CHR 0xC3, CHR 0xA1] @ ''lido: ''"

text \<open>\<^verbatim>\<open>_check_service\<close>: the only \<^verbatim>\<open>raise\<close> of the source.\<close>

definition check_service ::
  "py_runtime \<Rightarrow> ServiceMonitor \<Rightarrow> probe_env \<Rightarrow> exn + outcome \<times> event list" where
  "check_service rt m env =
     (if check_type m = ''http'' then Inr (check_http m env)
      else if check_type m = ''tcp'' then Inr (check_tcp rt m env)
      else if check_type m = ''icmp'' then Inr (check_icmp rt m env)
      else Inl (Exn ValueError (invalid_type @ check_type m)))"

subsection \<open>One iteration of the loop\<close>

text \<open>
  Where SIGINT arrives during one iteration, if it does: while the check is in flight, or
  during the sleep that ends the iteration.
\<close>

datatype sigint_at = NoSigint | InProbe | InSleep

text \<open>
  What the world does during one iteration: the check, the signal, the four readings of
  \<^verbatim>\<open>datetime.now()\<close> as \<^verbatim>\<open>strftime\<close> prints them (for the downtime event, for the status
  line, for the two log lines), and whether opening the log file raises.
\<close>

record tick =
  probe :: probe_env
  sigint :: sigint_at
  now_event :: string
  now_status :: string
  now_downtime_log :: string
  now_log :: string
  log_fault :: "exn option"

text \<open>\<^verbatim>\<open>_signal_handler\<close>.\<close>

definition signal_handler :: "ServiceMonitor \<Rightarrow> ServiceMonitor \<times> event list" where
  "signal_handler m = (m\<lparr>running := False\<rparr>, [Interrupt])"

definition deliver :: "bool \<Rightarrow> ServiceMonitor \<Rightarrow> ServiceMonitor \<times> event list" where
  "deliver arrives m = (if arrives then signal_handler m else (m, []))"

text \<open>\<^verbatim>\<open>_log\<close>: the events, and the exception when opening the file raises.\<close>

definition log_write ::
  "ServiceMonitor \<Rightarrow> exn option \<Rightarrow> string \<Rightarrow> string \<Rightarrow> event list \<times> exn option" where
  "log_write m fault now message =
     (case log_file m of
        None \<Rightarrow> ([], None)
      | Some f \<Rightarrow>
          if f = [] then ([], None)
          else (case fault of
                  Some e \<Rightarrow> ([], Some e)
                | None \<Rightarrow> ([LogLine f (drop_last3 now) message], None)))"

definition after_text :: string where
  "after_text = '' (ap'' @ [CHR 0xC3, CHR 0xB3] @ ''s ''"

text \<open>\<^verbatim>\<open>_print_status\<close>.\<close>

fun print_status ::
  "py_runtime \<Rightarrow> ServiceMonitor \<Rightarrow> tick \<Rightarrow> outcome \<Rightarrow> event list \<times> exn option" where
  "print_status rt m tk (success, response_time, error_msg) =
     (let timestamp = drop_last3 (now_status tk) in
      if success then
        (if response_time > threshold m then
           ([StatusLine timestamp YELLOW LENTO
               (''('' @ format_2f rt response_time @ ''ms > '' @ str_float rt (threshold m) @
                ''ms threshold)'')], None)
         else
           ([StatusLine timestamp GREEN UP (''('' @ format_2f rt response_time @ ''ms)'')], None))
      else
        (let details0 = (if truthy error_msg then format_opt error_msg else ''Unknown error'');
             details = (if response_time > 0
                        then details0 @ after_text @ format_2f rt response_time @ ''ms)''
                        else details0)
         in (case log_write m (log_fault tk) (now_downtime_log tk) (''DOWNTIME: '' @ details) of
               (logged, raised) \<Rightarrow> (StatusLine timestamp RED DOWN details # logged, raised))))"

text \<open>The log line of \<^verbatim>\<open>run\<close> (lines 310 and 311).\<close>

fun run_log_text :: "py_runtime \<Rightarrow> outcome \<Rightarrow> string" where
  "run_log_text rt (success, response_time, error_msg) =
     (if success then ''SUCCESS'' else ''FAILURE'') @ '': '' @ format_2f rt response_time @
     ''ms - '' @ (if truthy error_msg then format_opt error_msg else ''OK'')"

text \<open>
  The body of the \<^verbatim>\<open>while\<close> of \<^verbatim>\<open>run\<close> (lines 296 to 313): the exception that leaves it, if
  any, the monitor after it, and its events. The line of the signal handler is placed after
  the events of the check during which the signal arrived. \<^verbatim>\<open>time.sleep\<close> raises
  \<^verbatim>\<open>ValueError\<close> on a negative interval.
\<close>

definition iteration ::
  "py_runtime \<Rightarrow> ServiceMonitor \<Rightarrow> tick \<Rightarrow> exn option \<times> ServiceMonitor \<times> event list" where
  "iteration rt m tk =
     (case check_service rt m (probe tk) of
        Inl e \<Rightarrow> (Some e, m, [])
      | Inr (oc, ev0) \<Rightarrow>
          (case deliver (sigint tk = InProbe) m of (m1, ev1) \<Rightarrow>
             (let m2 = m1\<lparr>stats := record_check (stats m1) oc (now_event tk)\<rparr> in
              case print_status rt m2 tk oc of
                (ev2, Some e) \<Rightarrow> (Some e, m2, ev0 @ ev1 @ ev2)
              | (ev2, None) \<Rightarrow>
                  (case log_write m2 (log_fault tk) (now_log tk) (run_log_text rt oc) of
                     (ev3, Some e) \<Rightarrow> (Some e, m2, ev0 @ ev1 @ ev2 @ ev3)
                   | (ev3, None) \<Rightarrow>
                       if interval m2 < 0 then
                         (Some (Exn ValueError ''sleep length must be non-negative''), m2,
                          ev0 @ ev1 @ ev2 @ ev3)
                       else
                         (case deliver (sigint tk = InSleep) m2 of (m3, ev4) \<Rightarrow>
                            (None, m3, ev0 @ ev1 @ ev2 @ ev3 @ [Sleep (interval m2)] @ ev4))))))"

subsection \<open>The loop and \<^verbatim>\<open>run\<close>\<close>

text \<open>
  How the \<^verbatim>\<open>while\<close> ends on a finite list of ticks: the flag was false at the top of an
  iteration, an exception left the body, or the ticks are used up and the loop is still
  running (the program runs for as long as no signal arrives).
\<close>

datatype loop_exit = Returned | Raised exn | StillRunning

fun monitor_loop ::
  "py_runtime \<Rightarrow> ServiceMonitor \<Rightarrow> tick list \<Rightarrow> loop_exit \<times> ServiceMonitor \<times> event list" where
  "monitor_loop rt m [] = (if running m then StillRunning else Returned, m, [])"
| "monitor_loop rt m (tk # tks) =
     (if running m then
        (case iteration rt m tk of
           (Some e, m', ev) \<Rightarrow> (Raised e, m', ev)
         | (None, m', ev) \<Rightarrow>
             (case monitor_loop rt m' tks of (r, m'', ev') \<Rightarrow> (r, m'', ev @ ev')))
      else (Returned, m, []))"

definition list_min :: "real list \<Rightarrow> real" where
  "list_min xs = fold min (tl xs) (hd xs)"

definition list_max :: "real list \<Rightarrow> real" where
  "list_max xs = fold max (tl xs) (hd xs)"

text \<open>\<^verbatim>\<open>_print_statistics\<close>; \<open>now\<close> is its \<^verbatim>\<open>time.time()\<close>.\<close>

definition print_statistics :: "ServiceMonitor \<Rightarrow> real \<Rightarrow> exn + event list" where
  "print_statistics m now =
     (case get_uptime_percentage (stats m) of
        Inl e \<Rightarrow> Inl e
      | Inr up \<Rightarrow>
          (let avg_time = get_avg_response_time (stats m);
               median_time = get_median_response_time (stats m);
               rts = response_times (stats m);
               evs = downtime_events (stats m)
           in Inr [Statistics
                \<lparr>duration = now - start_time (stats m),
                 sum_total = total_checks (stats m),
                 sum_successful = successful_checks (stats m),
                 sum_failed = failed_checks (stats m),
                 uptime = up,
                 latency = (if rts \<noteq> [] then Some (avg_time, median_time, list_min rts, list_max rts)
                            else None),
                 downtime = (if evs \<noteq> []
                             then Some (length evs, take 5 evs,
                                        if 5 < length evs then Some (length evs - 5) else None)
                             else None),
                 log_note = (if truthy (log_file m) then log_file m else None)\<rparr>]))"

definition banner :: "ServiceMonitor \<Rightarrow> event" where
  "banner m =
     Banner (target m) (check_type m) (interval m) (timeout m) (threshold m)
       (if check_type m = ''http'' then Some (verify_ssl m) else None)
       (if truthy (log_file m) then log_file m else None)"

text \<open>
  \<^verbatim>\<open>run\<close>: the banner, the loop, and the \<^verbatim>\<open>finally\<close> clause once the loop has ended; \<open>now\<close>
  is the \<^verbatim>\<open>time.time()\<close> that \<^verbatim>\<open>_print_statistics\<close> reads. An exception raised inside the
  \<^verbatim>\<open>finally\<close> clause replaces the one in flight.
\<close>

definition run ::
  "py_runtime \<Rightarrow> ServiceMonitor \<Rightarrow> tick list \<Rightarrow> real \<Rightarrow> loop_exit \<times> ServiceMonitor \<times> event list" where
  "run rt m tks now =
     (case monitor_loop rt m tks of
        (StillRunning, m', ev) \<Rightarrow> (StillRunning, m', banner m # ev)
      | (r, m', ev) \<Rightarrow>
          (case print_statistics m' now of
             Inl e \<Rightarrow> (Raised e, m', banner m # ev)
           | Inr ev' \<Rightarrow> (r, m', banner m # ev @ ev')))"

subsection \<open>Notions used to state the properties\<close>

text \<open>The three invariants of the statistics.\<close>

definition stats_consistent :: "MonitorStats \<Rightarrow> bool" where
  "stats_consistent s =
     (total_checks s = successful_checks s + failed_checks s \<and>
      int (length (response_times s)) = successful_checks s \<and>
      int (length (downtime_events s)) = failed_checks s)"

text \<open>The status labels of the status lines among some events, in order.\<close>

fun statuses :: "event list \<Rightarrow> status list" where
  "statuses [] = []"
| "statuses (StatusLine ts c st d # evs) = st # statuses evs"
| "statuses (e # evs) = statuses evs"

text \<open>The summaries printed among some events, in order.\<close>

fun summaries :: "event list \<Rightarrow> summary list" where
  "summaries [] = []"
| "summaries (Statistics sm # evs) = sm # summaries evs"
| "summaries (e # evs) = summaries evs"


text \<open>
  The results of the checks that the loop completes on some ticks, in order: one for each
  iteration that the loop starts and whose check (line 296) returns.
\<close>

fun recorded :: "py_runtime \<Rightarrow> ServiceMonitor \<Rightarrow> tick list \<Rightarrow> outcome list" where
  "recorded rt m [] = []"
| "recorded rt m (tk # tks) =
     (if running m then
        (case check_service rt m (probe tk) of
           Inl e \<Rightarrow> []
         | Inr (oc, ev0) \<Rightarrow>
             oc # (case iteration rt m tk of
                     (Some e, m', ev) \<Rightarrow> []
                   | (None, m', ev) \<Rightarrow> recorded rt m' tks))
      else [])"

text \<open>The successful results, and the failed ones.\<close>

definition successes :: "outcome list \<Rightarrow> outcome list" where
  "successes ocs = filter (\<lambda>oc. fst oc) ocs"

definition failures :: "outcome list \<Rightarrow> outcome list" where
  "failures ocs = filter (\<lambda>oc. \<not> fst oc) ocs"

text \<open>
  The statistics \<open>s'\<close> are the statistics \<open>s\<close> after the results \<open>ocs\<close>: each result is counted,
  each success is counted as one and has added its response time, in order, each failure is
  counted as one and has added one downtime event.
\<close>

definition tally :: "MonitorStats \<Rightarrow> outcome list \<Rightarrow> MonitorStats \<Rightarrow> bool" where
  "tally s ocs s' =
     (total_checks s' = total_checks s + int (length ocs) \<and>
      successful_checks s' = successful_checks s + int (length (successes ocs)) \<and>
      failed_checks s' = failed_checks s + int (length (failures ocs)) \<and>
      response_times s' = response_times s @ map (\<lambda>oc. fst (snd oc)) (successes ocs) \<and>
      length (downtime_events s') = length (downtime_events s) + length (failures ocs) \<and>
      start_time s' = start_time s)"

subsection \<open>Example inputs\<close>

text \<open>
  A runtime for the examples: its formatters and its \<open>float_of_str\<close> agree with Python on the
  whole numbers that the examples use.
\<close>

definition example_runtime :: py_runtime where
  "example_runtime =
     \<lparr>format_2f = (\<lambda>x. show_int (trunc x) @ ''.00''),
      str_float = (\<lambda>x. show_int (trunc x) @ ''.0''),
      float_of_str = (\<lambda>s. map_option real_of_int (int_ascii 0 s)),
      int_max_str_digits = 4300,
      int_non_ascii = (\<lambda>s. None),
      int_error_text = (\<lambda>s. ''invalid literal for int() with base 10: '' @ [CHR 0x27] @ s @ [CHR 0x27])\<rparr>"

definition example_env :: probe_env where
  "example_env =
     \<lparr>perf_start = 1, perf_end = 1.02, requests_get = Inr 200, socket_new = None,
      connect_ex = (\<lambda>host port. Inr 0), platform_system = ''Linux'',
      subprocess_run = Inr (0, Inr ''64 bytes from 8.8.8.8: icmp_seq=1 ttl=117 time=12 ms'')\<rparr>"

definition example_tick :: tick where
  "example_tick =
     \<lparr>probe = example_env, sigint = NoSigint,
      now_event = ''2024-05-01 10:00:00.123456'', now_status = ''10:00:00.123456'',
      now_downtime_log = ''2024-05-01 10:00:00.123456'', now_log = ''2024-05-01 10:00:00.123456'',
      log_fault = None\<rparr>"

definition example_monitor :: "string \<Rightarrow> string \<Rightarrow> ServiceMonitor" where
  "example_monitor tgt ctype = ServiceMonitor_init tgt ctype 1 5 100 None True 0"

text \<open>A tick whose check takes 150 ms, above the threshold of the examples, and one that times out.\<close>

definition example_slow :: tick where
  "example_slow = example_tick\<lparr>probe := example_env\<lparr>perf_end := 1.15\<rparr>\<rparr>"

definition example_timeout :: tick where
  "example_timeout =
     example_tick\<lparr>probe := example_env\<lparr>requests_get := Inl (Exn RequestsTimeout ''read timed out'')\<rparr>\<rparr>"


section \<open>Properties\<close>

declare record_check.simps [simp del]
declare print_status.simps [simp del]

lemmas ex_defs = example_runtime_def example_env_def example_tick_def example_monitor_def
  ServiceMonitor_init_def MonitorStats_init_def

lemmas model_defs = run_def iteration_def check_service_def check_http_def check_tcp_def check_icmp_def
  deliver_def signal_handler_def log_write_def print_status.simps record_check.simps
  print_statistics_def get_uptime_percentage_def truediv_def elapsed_ms_def banner_def
  get_avg_response_time_def get_median_response_time_def mean_def median_def list_min_def list_max_def
  drop_last3_def Let_def


lemma stats_consistent_init: "stats_consistent (MonitorStats_init now)"
  by (simp add: stats_consistent_def MonitorStats_init_def)

lemma stats_consistent_record_check:
  "stats_consistent s \<Longrightarrow> stats_consistent (record_check s oc now)"
  by (cases oc) (auto simp: stats_consistent_def record_check.simps Let_def)

lemma iteration_raise:
  "check_service rt m (probe tk) = Inl e \<Longrightarrow> iteration rt m tk = (Some e, m, [])"
  by (simp add: iteration_def)

lemma iteration_stats:
  "check_service rt m (probe tk) = Inr (oc, ev0) \<Longrightarrow>
   stats (fst (snd (iteration rt m tk))) = record_check (stats m) oc (now_event tk)"
  by (simp add: iteration_def deliver_def signal_handler_def Let_def
           split: prod.splits option.splits)

lemma stats_consistent_iteration:
  assumes "stats_consistent (stats m)"
  shows "stats_consistent (stats (fst (snd (iteration rt m tk))))"
proof (cases "check_service rt m (probe tk)")
  case (Inl e)
  with assms show ?thesis by (simp add: iteration_raise)
next
  case (Inr p)
  obtain oc ev0 where "p = (oc, ev0)" by (cases p) auto
  with Inr assms show ?thesis
    by (simp add: iteration_stats stats_consistent_record_check)
qed

lemma stats_consistent_monitor_loop:
  "stats_consistent (stats m) \<Longrightarrow> stats_consistent (stats (fst (snd (monitor_loop rt m tks))))"
proof (induction tks arbitrary: m)
  case Nil
  then show ?case by simp
next
  case (Cons tk tks)
  show ?case
  proof (cases "running m")
    case False
    with Cons.prems show ?thesis by simp
  next
    case True
    obtain r m' ev where it: "iteration rt m tk = (r, m', ev)"
      by (cases "iteration rt m tk") auto
    have m': "stats_consistent (stats m')"
      using stats_consistent_iteration [OF Cons.prems, of rt tk] it by simp
    show ?thesis
    proof (cases r)
      case None
      obtain r2 m2 ev2 where lp: "monitor_loop rt m' tks = (r2, m2, ev2)"
        by (cases "monitor_loop rt m' tks") auto
      with None True it Cons.IH [OF m'] show ?thesis by simp
    next
      case (Some e)
      with True it m' show ?thesis by simp
    qed
  qed
qed

lemma run_monitor: "fst (snd (run rt m tks now)) = fst (snd (monitor_loop rt m tks))"
  by (simp add: run_def split: prod.splits loop_exit.splits sum.splits)

lemma record_check_success:
  "record_check s (True, t, e) now =
     s\<lparr>total_checks := total_checks s + 1, successful_checks := successful_checks s + 1,
       response_times := response_times s @ [t]\<rparr>"
  by (simp add: record_check.simps Let_def)

lemma record_check_failure:
  "record_check s (False, t, e) now =
     s\<lparr>total_checks := total_checks s + 1, failed_checks := failed_checks s + 1,
       downtime_events := downtime_events s @ [drop_last3 now @ '' - '' @ format_opt e]\<rparr>"
  by (simp add: record_check.simps Let_def)

lemma tally_nil: "tally s [] s"
  by (simp add: tally_def successes_def failures_def)

lemma tally_record_check:
  "tally (record_check s oc now) ocs s' \<Longrightarrow> tally s (oc # ocs) s'"
proof (cases oc)
  case (fields ok t e)
  assume "tally (record_check s oc now) ocs s'"
  with fields show ?thesis
    by (cases ok)
       (simp_all add: tally_def successes_def failures_def record_check_success record_check_failure)
qed

lemma tally_monitor_loop:
  "tally (stats m) (recorded rt m tks) (stats (fst (snd (monitor_loop rt m tks))))"
proof (induction tks arbitrary: m)
  case Nil
  show ?case by (simp add: tally_nil)
next
  case (Cons tk tks)
  show ?case
  proof (cases "running m")
    case False
    then show ?thesis by (simp add: tally_nil)
  next
    case True
    show ?thesis
    proof (cases "check_service rt m (probe tk)")
      case (Inl e)
      with True show ?thesis by (simp add: iteration_raise tally_nil)
    next
      case (Inr p)
      obtain oc ev0 where p: "p = (oc, ev0)" by (cases p) auto
      obtain r m' ev where it: "iteration rt m tk = (r, m', ev)"
        by (cases "iteration rt m tk") auto
      have st: "stats m' = record_check (stats m) oc (now_event tk)"
        using iteration_stats [of rt m tk oc ev0] Inr p it by simp
      show ?thesis
      proof (cases r)
        case (Some e)
        have "tally (record_check (stats m) oc (now_event tk)) [] (stats m')"
          using st by (simp add: tally_nil)
        then have "tally (stats m) [oc] (stats m')" by (rule tally_record_check)
        with True Inr p it Some show ?thesis by simp
      next
        case None
        obtain r2 m2 ev2 where lp: "monitor_loop rt m' tks = (r2, m2, ev2)"
          by (cases "monitor_loop rt m' tks") auto
        have "tally (stats m') (recorded rt m' tks) (stats m2)"
          using Cons.IH [of m'] lp by simp
        then have "tally (stats m) (oc # recorded rt m' tks) (stats m2)"
          unfolding st by (rule tally_record_check)
        with True Inr p it None lp show ?thesis by simp
      qed
    qed
  qed
qed

lemma recorded_run_tally:
  "tally (MonitorStats_init t0)
     (recorded rt (ServiceMonitor_init tgt ctype intv tmo thr lf vssl t0) tks)
     (stats (fst (snd (run rt (ServiceMonitor_init tgt ctype intv tmo thr lf vssl t0) tks now))))"
  using tally_monitor_loop [of "ServiceMonitor_init tgt ctype intv tmo thr lf vssl t0" rt tks]
  by (simp add: run_monitor ServiceMonitor_init_def)

text \<open>
  Claim C1. Whatever the ticks, after each of them the statistics of a run that started from
  a new monitor satisfy the three invariants: the total is the sum of the successes and the
  failures, there is one response time for each success, and one downtime event for each
  failure. They hold because every completed check is recorded: the total is the number of
  completed checks, the successes and the failures are their numbers among them, and the
  response times are those of the successful checks, in order, whatever the threshold (a slow
  success adds its sample too). In one iteration, a successful check adds one to the total
  and to the successes and appends its response time; a failed check adds one to the total
  and to the failures and appends one downtime event. The monitor after \<open>k\<close> ticks is the one
  the run over the first \<open>k\<close> ticks ends with.
\<close>

theorem run_stats_consistent:
  "stats_consistent
     (stats (fst (snd (run rt (ServiceMonitor_init tgt ctype intv tmo thr lf vssl t0) (take k tks) now)))) \<and>
   total_checks
     (stats (fst (snd (run rt (ServiceMonitor_init tgt ctype intv tmo thr lf vssl t0) (take k tks) now)))) =
     int (length (recorded rt (ServiceMonitor_init tgt ctype intv tmo thr lf vssl t0) (take k tks))) \<and>
   successful_checks
     (stats (fst (snd (run rt (ServiceMonitor_init tgt ctype intv tmo thr lf vssl t0) (take k tks) now)))) =
     int (length (successes (recorded rt (ServiceMonitor_init tgt ctype intv tmo thr lf vssl t0) (take k tks)))) \<and>
   failed_checks
     (stats (fst (snd (run rt (ServiceMonitor_init tgt ctype intv tmo thr lf vssl t0) (take k tks) now)))) =
     int (length (failures (recorded rt (ServiceMonitor_init tgt ctype intv tmo thr lf vssl t0) (take k tks)))) \<and>
   response_times
     (stats (fst (snd (run rt (ServiceMonitor_init tgt ctype intv tmo thr lf vssl t0) (take k tks) now)))) =
     map (\<lambda>oc. fst (snd oc))
       (successes (recorded rt (ServiceMonitor_init tgt ctype intv tmo thr lf vssl t0) (take k tks))) \<and>
   length (downtime_events
     (stats (fst (snd (run rt (ServiceMonitor_init tgt ctype intv tmo thr lf vssl t0) (take k tks) now))))) =
     length (failures (recorded rt (ServiceMonitor_init tgt ctype intv tmo thr lf vssl t0) (take k tks))) \<and>
   (\<forall>m tk t e ev0. check_service rt m (probe tk) = Inr ((True, t, e), ev0) \<longrightarrow>
      response_times (stats (fst (snd (iteration rt m tk)))) = response_times (stats m) @ [t] \<and>
      successful_checks (stats (fst (snd (iteration rt m tk)))) = successful_checks (stats m) + 1 \<and>
      total_checks (stats (fst (snd (iteration rt m tk)))) = total_checks (stats m) + 1) \<and>
   (\<forall>m tk t e ev0. check_service rt m (probe tk) = Inr ((False, t, e), ev0) \<longrightarrow>
      length (downtime_events (stats (fst (snd (iteration rt m tk))))) =
        length (downtime_events (stats m)) + 1 \<and>
      failed_checks (stats (fst (snd (iteration rt m tk)))) = failed_checks (stats m) + 1 \<and>
      total_checks (stats (fst (snd (iteration rt m tk)))) = total_checks (stats m) + 1)"
proof -
  have inv: "stats_consistent
     (stats (fst (snd (run rt (ServiceMonitor_init tgt ctype intv tmo thr lf vssl t0) (take k tks) now))))"
    by (simp add: run_monitor stats_consistent_monitor_loop ServiceMonitor_init_def
          stats_consistent_init)
  have ok: "response_times (stats (fst (snd (iteration rt m tk)))) = response_times (stats m) @ [t] \<and>
      successful_checks (stats (fst (snd (iteration rt m tk)))) = successful_checks (stats m) + 1 \<and>
      total_checks (stats (fst (snd (iteration rt m tk)))) = total_checks (stats m) + 1"
    if "check_service rt m (probe tk) = Inr ((True, t, e), ev0)" for m tk t e ev0
    using iteration_stats [OF that] by (simp add: record_check_success)
  have ko: "length (downtime_events (stats (fst (snd (iteration rt m tk))))) =
        length (downtime_events (stats m)) + 1 \<and>
      failed_checks (stats (fst (snd (iteration rt m tk)))) = failed_checks (stats m) + 1 \<and>
      total_checks (stats (fst (snd (iteration rt m tk)))) = total_checks (stats m) + 1"
    if "check_service rt m (probe tk) = Inr ((False, t, e), ev0)" for m tk t e ev0
    using iteration_stats [OF that] by (simp add: record_check_failure)
  show ?thesis
    using inv recorded_run_tally [of t0 rt tgt ctype intv tmo thr lf vssl "take k tks" now] ok ko
    by (simp add: tally_def MonitorStats_init_def)
qed

theorem run_stats_consistent_witness:
  "recorded example_runtime (example_monitor ''http://example.com'' ''http'')
      [example_tick, example_slow, example_timeout] =
      [(True, 20, None), (True, 150, None), (False, 5000, Some ''Timeout'')] \<and>
   threshold (example_monitor ''http://example.com'' ''http'') = 100 \<and>
   stats (fst (snd (run example_runtime (example_monitor ''http://example.com'' ''http'')
      [example_tick, example_slow, example_timeout] 9))) =
     \<lparr>total_checks = 3, successful_checks = 2, failed_checks = 1, response_times = [20, 150],
      downtime_events = [''2024-05-01 10:00:00.123 - Timeout''], start_time = 0\<rparr> \<and>
   stats_consistent (stats (fst (snd (run example_runtime (example_monitor ''http://example.com'' ''http'')
      [example_tick, example_slow, example_timeout] 9)))) \<and>
   check_service example_runtime (example_monitor ''http://example.com'' ''http'') (probe example_slow) =
      Inr ((True, 150, None), [HttpGet ''http://example.com'' 5 True]) \<and>
   response_times (stats (fst (snd (iteration example_runtime
      (example_monitor ''http://example.com'' ''http'') example_slow)))) = [150]"
proof -
  let ?m = "example_monitor ''http://example.com'' ''http''"
  let ?tks = "[example_tick, example_slow, example_timeout]"
  note T = run_stats_consistent [of example_runtime "''http://example.com''" "''http''" 1 5 100 None
      True 0 3 ?tks 9, folded example_monitor_def]
  have rec: "recorded example_runtime ?m ?tks =
      [(True, 20, None), (True, 150, None), (False, 5000, Some ''Timeout'')]"
    by (simp add: ex_defs model_defs example_slow_def example_timeout_def)
  have cs: "check_service example_runtime ?m (probe example_slow) =
      Inr ((True, 150, None), [HttpGet ''http://example.com'' 5 True])"
    by (simp add: ex_defs example_slow_def check_service_def check_http_def elapsed_ms_def)
  have st: "stats (fst (snd (run example_runtime ?m ?tks 9))) =
     \<lparr>total_checks = 3, successful_checks = 2, failed_checks = 1, response_times = [20, 150],
      downtime_events = [''2024-05-01 10:00:00.123 - Timeout''], start_time = 0\<rparr>"
    by (simp add: ex_defs model_defs example_slow_def example_timeout_def)
  have inv: "stats_consistent (stats (fst (snd (run example_runtime ?m ?tks 9))))"
    using T [THEN conjunct1] by simp
  have step: "response_times (stats (fst (snd (iteration example_runtime ?m example_slow)))) =
      response_times (stats ?m) @ [150]"
    using T cs by blast
  show ?thesis
  proof (intro conjI)
    show "recorded example_runtime ?m ?tks =
      [(True, 20, None), (True, 150, None), (False, 5000, Some ''Timeout'')]" by (rule rec)
    show "threshold ?m = 100" by (simp add: ex_defs)
    show "stats (fst (snd (run example_runtime ?m ?tks 9))) =
     \<lparr>total_checks = 3, successful_checks = 2, failed_checks = 1, response_times = [20, 150],
      downtime_events = [''2024-05-01 10:00:00.123 - Timeout''], start_time = 0\<rparr>" by (rule st)
    show "stats_consistent (stats (fst (snd (run example_runtime ?m ?tks 9))))" by (rule inv)
    show "check_service example_runtime ?m (probe example_slow) =
      Inr ((True, 150, None), [HttpGet ''http://example.com'' 5 True])" by (rule cs)
    show "response_times (stats (fst (snd (iteration example_runtime ?m example_slow)))) = [150]"
      using step by (simp add: ex_defs)
  qed
qed

text \<open>
  Claim C6. The uptime percentage is always a value, never a \<^verbatim>\<open>ZeroDivisionError\<close>: 0 when no
  check was made, and the successes divided by the total, times 100, otherwise.
\<close>

theorem get_uptime_percentage_value:
  "get_uptime_percentage s =
     Inr (if total_checks s = 0 then 0
          else real_of_int (successful_checks s) / real_of_int (total_checks s) * 100)"
  by (simp add: get_uptime_percentage_def truediv_def)

theorem get_uptime_percentage_value_witness:
  "get_uptime_percentage (MonitorStats_init 0) = Inr 0 \<and>
   get_uptime_percentage
     ((MonitorStats_init 0)\<lparr>total_checks := 4, successful_checks := 3, failed_checks := 1\<rparr>) = Inr 75"
  using get_uptime_percentage_value [of "MonitorStats_init 0"]
    get_uptime_percentage_value
      [of "(MonitorStats_init 0)\<lparr>total_checks := 4, successful_checks := 3, failed_checks := 1\<rparr>"]
  by (simp add: MonitorStats_init_def)

text \<open>
  Claim C10. Recording a check never changes the start time; recording a success leaves the
  count of failures and the downtime events as they were; recording a failure leaves the
  count of successes and the response times as they were.
\<close>

theorem record_check_frame:
  "start_time (record_check s (success, response_time, error_msg) now) = start_time s \<and>
   (success \<longrightarrow>
      failed_checks (record_check s (success, response_time, error_msg) now) = failed_checks s \<and>
      downtime_events (record_check s (success, response_time, error_msg) now) = downtime_events s) \<and>
   (\<not> success \<longrightarrow>
      successful_checks (record_check s (success, response_time, error_msg) now) = successful_checks s \<and>
      response_times (record_check s (success, response_time, error_msg) now) = response_times s)"
  by (simp add: record_check.simps Let_def)

theorem record_check_frame_witness:
  "start_time (record_check (MonitorStats_init 7) (True, 20, None) ''2024-05-01 10:00:00.123456'') = 7 \<and>
   failed_checks (record_check (MonitorStats_init 7) (True, 20, None) ''2024-05-01 10:00:00.123456'') = 0 \<and>
   downtime_events (record_check (MonitorStats_init 7) (True, 20, None) ''2024-05-01 10:00:00.123456'') = [] \<and>
   successful_checks
     (record_check (MonitorStats_init 7) (False, 5000, Some ''Timeout'') ''2024-05-01 10:00:00.123456'') = 0 \<and>
   response_times
     (record_check (MonitorStats_init 7) (False, 5000, Some ''Timeout'') ''2024-05-01 10:00:00.123456'') = []"
  using record_check_frame [of "MonitorStats_init 7" True 20 None "''2024-05-01 10:00:00.123456''"]
    record_check_frame [of "MonitorStats_init 7" False 5000 "Some ''Timeout''" "''2024-05-01 10:00:00.123456''"]
  by (simp add: MonitorStats_init_def)

lemma statuses_log_write: "statuses (fst (log_write m fault now msg)) = []"
  by (simp add: log_write_def split: option.splits)

text \<open>
  Claim C2. The status line of a check is DOWN when the check failed, LENTO (slow) when it
  succeeded with a response time strictly above the threshold, and UP otherwise; a success
  whose response time equals the threshold is UP.
\<close>

theorem print_status_classification:
  "statuses (fst (print_status rt m tk (success, response_time, error_msg))) =
     [if \<not> success then DOWN else if response_time > threshold m then LENTO else UP] \<and>
   (success \<and> response_time = threshold m \<longrightarrow>
      statuses (fst (print_status rt m tk (success, response_time, error_msg))) = [UP])"
  by (simp add: print_status.simps Let_def case_prod_beta statuses_log_write)

theorem print_status_classification_witness:
  "statuses (fst (print_status example_runtime (example_monitor ''http://example.com'' ''http'')
      example_tick (True, 100, None))) = [UP] \<and>
   statuses (fst (print_status example_runtime (example_monitor ''http://example.com'' ''http'')
      example_tick (True, 150, None))) = [LENTO] \<and>
   statuses (fst (print_status example_runtime (example_monitor ''http://example.com'' ''http'')
      example_tick (False, 0, Some ''Timeout''))) = [DOWN]"
  using print_status_classification [of example_runtime "example_monitor ''http://example.com'' ''http''"
      example_tick True 100 None]
    print_status_classification [of example_runtime "example_monitor ''http://example.com'' ''http''"
      example_tick True 150 None]
    print_status_classification [of example_runtime "example_monitor ''http://example.com'' ''http''"
      example_tick False 0 "Some ''Timeout''"]
  by (simp add: example_monitor_def ServiceMonitor_init_def)

lemma summaries_append: "summaries (xs @ ys) = summaries xs @ summaries ys"
  by (induction xs rule: summaries.induct) simp_all

lemma summaries_log_write: "summaries (fst (log_write m fault now msg)) = []"
  by (simp add: log_write_def split: option.splits)

lemma summaries_print_status: "summaries (fst (print_status rt m tk oc)) = []"
  by (cases oc) (simp add: print_status.simps Let_def case_prod_beta summaries_log_write)

lemma summaries_deliver: "summaries (snd (deliver b m)) = []"
  by (simp add: deliver_def signal_handler_def)

lemma summaries_check_http: "summaries (snd (check_http m env)) = []"
  by (simp add: check_http_def)

lemma summaries_check_tcp: "summaries (snd (check_tcp rt m env)) = []"
  by (simp add: check_tcp_def split: prod.splits sum.splits option.splits)

lemma summaries_check_icmp: "summaries (snd (check_icmp rt m env)) = []"
  by (simp add: check_icmp_def Let_def)

lemma summaries_check_service:
  "check_service rt m env = Inr (oc, ev) \<Longrightarrow> summaries ev = []"
  using summaries_check_http [of m env] summaries_check_tcp [of rt m env]
    summaries_check_icmp [of rt m env]
  by (auto simp: check_service_def split: if_splits)

lemma summaries_print_status_ev: "print_status rt m tk oc = (ev, r) \<Longrightarrow> summaries ev = []"
  using summaries_print_status [of rt m tk oc] by simp

lemma summaries_log_write_ev: "log_write m fault now msg = (ev, r) \<Longrightarrow> summaries ev = []"
  using summaries_log_write [of m fault now msg] by simp

lemma summaries_iteration: "summaries (snd (snd (iteration rt m tk))) = []"
proof (cases "check_service rt m (probe tk)")
  case (Inl e)
  then show ?thesis by (simp add: iteration_raise)
next
  case (Inr p)
  obtain oc ev0 where p: "p = (oc, ev0)" by (cases p) auto
  have ev0: "summaries ev0 = []"
    using Inr p summaries_check_service by blast
  show ?thesis
    using Inr p ev0
    by (auto simp: iteration_def Let_def summaries_append deliver_def signal_handler_def
             split: prod.splits option.splits
             dest: summaries_print_status_ev summaries_log_write_ev)
qed

lemma summaries_monitor_loop: "summaries (snd (snd (monitor_loop rt m tks))) = []"
proof (induction tks arbitrary: m)
  case Nil
  show ?case by simp
next
  case (Cons tk tks)
  obtain r m' ev where it: "iteration rt m tk = (r, m', ev)"
    by (cases "iteration rt m tk") auto
  have ev: "summaries ev = []"
    using summaries_iteration [of rt m tk] it by simp
  obtain r2 m2 ev2 where lp: "monitor_loop rt m' tks = (r2, m2, ev2)"
    by (cases "monitor_loop rt m' tks") auto
  have ev2: "summaries ev2 = []"
    using Cons.IH [of m'] lp by simp
  show ?case
    using it ev lp ev2 by (cases r) (simp_all add: summaries_append)
qed

lemma print_statistics_Inr: "\<exists>sm. print_statistics m now = Inr [Statistics sm]"
  by (simp add: print_statistics_def get_uptime_percentage_def truediv_def Let_def)

lemma run_exit: "fst (run rt m tks now) = fst (monitor_loop rt m tks)"
proof -
  obtain sm where "print_statistics (fst (snd (monitor_loop rt m tks))) now = Inr [Statistics sm]"
    using print_statistics_Inr by blast
  then show ?thesis
    by (cases "monitor_loop rt m tks") (auto simp: run_def split: loop_exit.splits)
qed

lemma run_events_still:
  "fst (monitor_loop rt m tks) = StillRunning \<Longrightarrow>
   snd (snd (run rt m tks now)) = banner m # snd (snd (monitor_loop rt m tks))"
  by (cases "monitor_loop rt m tks") (auto simp: run_def)

lemma run_events_ended:
  "fst (monitor_loop rt m tks) \<noteq> StillRunning \<Longrightarrow>
   print_statistics (fst (snd (monitor_loop rt m tks))) now = Inr evs \<Longrightarrow>
   snd (snd (run rt m tks now)) = (banner m # snd (snd (monitor_loop rt m tks))) @ evs"
  by (cases "monitor_loop rt m tks") (auto simp: run_def split: loop_exit.splits)

lemma summaries_banner: "summaries (banner m # evs) = summaries evs"
  by (simp add: banner_def)

lemma monitor_loop_stopped: "\<not> running m \<Longrightarrow> monitor_loop rt m tks = (Returned, m, [])"
  by (cases tks) simp_all

lemma iteration_running:
  "iteration rt m tk = (None, m', ev) \<Longrightarrow> running m' = (running m \<and> sigint tk = NoSigint)"
  by (cases "sigint tk")
     (auto simp: iteration_def Let_def deliver_def signal_handler_def
           split: sum.splits prod.splits option.splits if_splits)

lemma monitor_loop_signalled:
  "\<exists>tk\<in>set tks. sigint tk \<noteq> NoSigint \<Longrightarrow> fst (monitor_loop rt m tks) \<noteq> StillRunning"
proof (induction tks arbitrary: m)
  case Nil
  then show ?case by simp
next
  case (Cons tk tks)
  show ?case
  proof (cases "running m")
    case False
    then show ?thesis by simp
  next
    case True
    obtain r m' ev where it: "iteration rt m tk = (r, m', ev)"
      by (cases "iteration rt m tk") auto
    show ?thesis
    proof (cases r)
      case (Some e)
      with True it show ?thesis by simp
    next
      case None
      obtain r2 m2 ev2 where lp: "monitor_loop rt m' tks = (r2, m2, ev2)"
        by (cases "monitor_loop rt m' tks") auto
      have r2: "r2 \<noteq> StillRunning"
      proof (cases "sigint tk = NoSigint")
        case True
        with Cons.prems have "\<exists>tk\<in>set tks. sigint tk \<noteq> NoSigint" by simp
        from Cons.IH [OF this, of m'] lp show ?thesis by simp
      next
        case False
        with it None have "\<not> running m'" by (simp add: iteration_running)
        with lp show ?thesis by (simp add: monitor_loop_stopped)
      qed
      with True it None lp show ?thesis by simp
    qed
  qed
qed

lemma check_service_unknown:
  "check_type m \<notin> {''http'', ''tcp'', ''icmp''} \<Longrightarrow>
   check_service rt m env = Inl (Exn ValueError (invalid_type @ check_type m))"
  by (simp add: check_service_def)

lemma monitor_loop_unknown:
  "running m \<Longrightarrow> check_type m \<notin> {''http'', ''tcp'', ''icmp''} \<Longrightarrow>
   monitor_loop rt m (tk # tks) = (Raised (Exn ValueError (invalid_type @ check_type m)), m, [])"
  by (simp add: check_service_unknown iteration_raise)

lemma run_summaries_still:
  assumes "fst (monitor_loop rt m tks) = StillRunning"
  shows "summaries (snd (snd (run rt m tks now))) = []"
  using assms summaries_monitor_loop [of rt m tks]
  by (simp add: run_events_still summaries_banner)

lemma run_summaries_ended:
  assumes ended: "fst (monitor_loop rt m tks) \<noteq> StillRunning"
  shows "\<exists>ev sm. print_statistics (fst (snd (run rt m tks now))) now = Inr [Statistics sm] \<and>
           snd (snd (run rt m tks now)) = ev @ [Statistics sm] \<and> summaries ev = []"
proof -
  obtain sm where sm: "print_statistics (fst (snd (monitor_loop rt m tks))) now = Inr [Statistics sm]"
    using print_statistics_Inr by blast
  have "snd (snd (run rt m tks now)) = (banner m # snd (snd (monitor_loop rt m tks))) @ [Statistics sm]"
    using run_events_ended [OF ended sm] .
  moreover have "summaries (banner m # snd (snd (monitor_loop rt m tks))) = []"
    using summaries_monitor_loop [of rt m tks] by (simp add: summaries_banner)
  ultimately show ?thesis
    using sm by (metis run_monitor)
qed

lemma run_summaries_once:
  assumes "fst (monitor_loop rt m tks) \<noteq> StillRunning"
  shows "length (summaries (snd (snd (run rt m tks now)))) = 1"
  using run_summaries_ended [OF assms, of now] by (auto simp: summaries_append)

text \<open>
  Claim C3. A run whose loop has ended, by cancellation or by an exception, prints the
  summary of the statistics it has accumulated exactly once, as its last event; a run whose
  loop has not ended has printed none. The loop ends when the flag is already false, when a
  signal arrives during one of the ticks, and, with \<^verbatim>\<open>ValueError\<close>, at the first tick of a
  monitor whose type is none of http, tcp and icmp.
\<close>

theorem run_summary_exactly_once:
  "(fst (run rt m tks now) = StillRunning \<longrightarrow> summaries (snd (snd (run rt m tks now))) = []) \<and>
   (fst (run rt m tks now) \<noteq> StillRunning \<longrightarrow>
      (\<exists>ev sm. print_statistics (fst (snd (run rt m tks now))) now = Inr [Statistics sm] \<and>
               snd (snd (run rt m tks now)) = ev @ [Statistics sm] \<and> summaries ev = [])) \<and>
   (\<not> running m \<longrightarrow> fst (run rt m tks now) = Returned) \<and>
   ((\<exists>tk\<in>set tks. sigint tk \<noteq> NoSigint) \<longrightarrow> fst (run rt m tks now) \<noteq> StillRunning) \<and>
   (running m \<and> tks \<noteq> [] \<and> check_type m \<notin> {''http'', ''tcp'', ''icmp''} \<longrightarrow>
      fst (run rt m tks now) = Raised (Exn ValueError (invalid_type @ check_type m)))"
proof (intro conjI impI)
  assume "fst (run rt m tks now) = StillRunning"
  then show "summaries (snd (snd (run rt m tks now))) = []"
    by (simp add: run_exit run_summaries_still)
next
  assume "fst (run rt m tks now) \<noteq> StillRunning"
  then have "fst (monitor_loop rt m tks) \<noteq> StillRunning" by (simp add: run_exit)
  then show "\<exists>ev sm. print_statistics (fst (snd (run rt m tks now))) now = Inr [Statistics sm] \<and>
      snd (snd (run rt m tks now)) = ev @ [Statistics sm] \<and> summaries ev = []"
    by (rule run_summaries_ended)
next
  assume "\<not> running m"
  then show "fst (run rt m tks now) = Returned"
    by (simp add: run_exit monitor_loop_stopped)
next
  assume "\<exists>tk\<in>set tks. sigint tk \<noteq> NoSigint"
  then show "fst (run rt m tks now) \<noteq> StillRunning"
    by (simp add: run_exit monitor_loop_signalled)
next
  assume a: "running m \<and> tks \<noteq> [] \<and> check_type m \<notin> {''http'', ''tcp'', ''icmp''}"
  then obtain tk tks' where tks: "tks = tk # tks'" by (cases tks) auto
  from a have "monitor_loop rt m (tk # tks') =
      (Raised (Exn ValueError (invalid_type @ check_type m)), m, [])"
    by (intro monitor_loop_unknown) simp_all
  with tks show "fst (run rt m tks now) = Raised (Exn ValueError (invalid_type @ check_type m))"
    by (simp add: run_exit)
qed

theorem run_summary_exactly_once_witness:
  "fst (run example_runtime (example_monitor ''http://example.com'' ''http'')
          [example_tick, example_tick\<lparr>sigint := InProbe\<rparr>, example_tick] 9) = Returned \<and>
   length (summaries (snd (snd (run example_runtime (example_monitor ''http://example.com'' ''http'')
          [example_tick, example_tick\<lparr>sigint := InProbe\<rparr>, example_tick] 9)))) = 1 \<and>
   sum_total (hd (summaries (snd (snd (run example_runtime (example_monitor ''http://example.com'' ''http'')
          [example_tick, example_tick\<lparr>sigint := InProbe\<rparr>, example_tick] 9))))) = 2 \<and>
   fst (run example_runtime (example_monitor ''example.com'' ''ftp'') [example_tick] 9) =
      Raised (Exn ValueError (invalid_type @ ''ftp'')) \<and>
   length (summaries (snd (snd (run example_runtime (example_monitor ''example.com'' ''ftp'')
          [example_tick] 9)))) = 1 \<and>
   summaries (snd (snd (run example_runtime (example_monitor ''http://example.com'' ''http'')
          [example_tick, example_tick] 9))) = []"
  using run_summary_exactly_once [of example_runtime "example_monitor ''http://example.com'' ''http''"
      "[example_tick, example_tick\<lparr>sigint := InProbe\<rparr>, example_tick]" 9]
    run_summary_exactly_once [of example_runtime "example_monitor ''example.com'' ''ftp''"
      "[example_tick]" 9]
    run_summary_exactly_once [of example_runtime "example_monitor ''http://example.com'' ''http''"
      "[example_tick, example_tick]" 9]
  by (simp add: ex_defs model_defs)

lemma http_except_fails:
  "http_except m e = (s, t, err) \<Longrightarrow> \<not> s \<and> (\<exists>text. err = Some text \<and> text \<noteq> [])"
  by (cases e) (auto split: if_splits)







lemma check_http_error_fails:
  "requests_get env = Inl e \<Longrightarrow> \<not> fst (fst (check_http m env))"
  by (cases "http_except m e") (auto simp: check_http_def dest!: http_except_fails)



lemma check_service_known:
  assumes "check_type m \<in> {''http'', ''tcp'', ''icmp''}"
  shows "\<exists>oc ev. check_service rt m env = Inr (oc, ev)"
  using assms
  by (cases "check_http m env"; cases "check_tcp rt m env"; cases "check_icmp rt m env")
     (auto simp: check_service_def)



text \<open>
  Claim C7. An HTTP check succeeds exactly when a response arrives whose status code is at
  least 200 and below 400. On a timeout it fails with the configured timeout, in
  milliseconds, as its time and the error Timeout. On a connection error that is not a
  timeout it fails with time 0 and an error that carries the text of the exception.
\<close>

theorem check_http_outcome:
  "(fst (fst (check_http m env)) \<longleftrightarrow>
      (\<exists>status_code. requests_get env = Inr status_code \<and> 200 \<le> status_code \<and> status_code < 400)) \<and>
   (\<forall>c msg. requests_get env = Inl (Exn c msg) \<and> is_requests_Timeout c \<longrightarrow>
      fst (check_http m env) = (False, timeout m * 1000, Some ''Timeout'')) \<and>
   (\<forall>c msg. requests_get env = Inl (Exn c msg) \<and> \<not> is_requests_Timeout c \<and>
        is_requests_ConnectionError c \<longrightarrow>
      fst (check_http m env) = (False, 0, Some (''Connection Error: '' @ msg)))"
proof (intro conjI allI impI)
  show "fst (fst (check_http m env)) \<longleftrightarrow>
      (\<exists>status_code. requests_get env = Inr status_code \<and> 200 \<le> status_code \<and> status_code < 400)"
  proof (cases "requests_get env")
    case (Inl e)
    then show ?thesis using check_http_error_fails [OF Inl, of m] by simp
  next
    case (Inr status_code)
    then show ?thesis by (simp add: check_http_def)
  qed
next
  fix c msg
  assume "requests_get env = Inl (Exn c msg) \<and> is_requests_Timeout c"
  then show "fst (check_http m env) = (False, timeout m * 1000, Some ''Timeout'')"
    by (simp add: check_http_def)
next
  fix c msg
  assume "requests_get env = Inl (Exn c msg) \<and> \<not> is_requests_Timeout c \<and>
        is_requests_ConnectionError c"
  then show "fst (check_http m env) = (False, 0, Some (''Connection Error: '' @ msg))"
    by (simp add: check_http_def)
qed

theorem check_http_outcome_witness:
  "fst (check_http (example_monitor ''http://example.com'' ''http'') example_env) = (True, 20, None) \<and>
   fst (check_http (example_monitor ''http://example.com'' ''http'')
          (example_env\<lparr>requests_get := Inr 399\<rparr>)) = (True, 20, None) \<and>
   fst (check_http (example_monitor ''http://example.com'' ''http'')
          (example_env\<lparr>requests_get := Inr 400\<rparr>)) = (False, 20, Some ''HTTP 400'') \<and>
   \<not> fst (fst (check_http (example_monitor ''http://example.com'' ''http'')
          (example_env\<lparr>requests_get := Inr 199\<rparr>))) \<and>
   fst (check_http (example_monitor ''http://example.com'' ''http'')
          (example_env\<lparr>requests_get := Inl (Exn RequestsTimeout ''read timed out'')\<rparr>)) =
     (False, 5000, Some ''Timeout'') \<and>
   fst (check_http (example_monitor ''http://example.com'' ''http'')
          (example_env\<lparr>requests_get := Inl (Exn RequestsConnectionError ''connection refused'')\<rparr>)) =
     (False, 0, Some ''Connection Error: connection refused'')"
  using
    check_http_outcome [of "example_monitor ''http://example.com'' ''http''" example_env]
    check_http_outcome [of "example_monitor ''http://example.com'' ''http''"
      "example_env\<lparr>requests_get := Inr 199\<rparr>"]
    check_http_outcome [of "example_monitor ''http://example.com'' ''http''"
      "example_env\<lparr>requests_get := Inl (Exn RequestsTimeout ''read timed out'')\<rparr>"]
    check_http_outcome [of "example_monitor ''http://example.com'' ''http''"
      "example_env\<lparr>requests_get := Inl (Exn RequestsConnectionError ''connection refused'')\<rparr>"]
  by (simp add: ex_defs check_http_def elapsed_ms_def show_int_def show_nat.simps digit_char_def)







lemma total_checks_record_check:
  "total_checks (record_check s oc now) = total_checks s + 1"
  by (cases oc) (simp add: record_check.simps Let_def)

lemma iteration_in_probe:
  assumes "check_service rt m (probe tk) = Inr (oc, ev0)" and "sigint tk = InProbe"
  shows "\<exists>r m' rest. iteration rt m tk = (r, m', ev0 @ Interrupt # rest) \<and>
           stats m' = record_check (stats m) oc (now_event tk) \<and> \<not> running m'"
  using assms
  by (auto simp: iteration_def deliver_def signal_handler_def Let_def
           split: prod.splits option.splits)

lemma monitor_loop_cancelled:
  assumes "running m" and "iteration rt m tk = (r, m', ev)" and "\<not> running m'"
  shows "monitor_loop rt m (tk # tks) = ((case r of None \<Rightarrow> Returned | Some e \<Rightarrow> Raised e), m', ev)"
  using assms by (cases r) (simp_all add: monitor_loop_stopped)

text \<open>
  Claim C9. When the signal arrives while a check of a running monitor is in flight, the
  check completes: all its events happen and its result is recorded, once, so the total
  grows by one. The flag is then false, the loop ends at the top of the next iteration
  without reading any further tick, and the summary is printed exactly once.
\<close>

theorem cancellation_in_flight:
  "running m \<and> sigint tk = InProbe \<and> check_type m \<in> {''http'', ''tcp'', ''icmp''} \<longrightarrow>
     (\<exists>oc ev0 rest.
        check_service rt m (probe tk) = Inr (oc, ev0) \<and>
        snd (snd (run rt m (tk # tks) now)) = banner m # ev0 @ Interrupt # rest \<and>
        stats (fst (snd (run rt m (tk # tks) now))) = record_check (stats m) oc (now_event tk) \<and>
        total_checks (stats (fst (snd (run rt m (tk # tks) now)))) = total_checks (stats m) + 1 \<and>
        \<not> running (fst (snd (run rt m (tk # tks) now))) \<and>
        fst (run rt m (tk # tks) now) \<noteq> StillRunning \<and>
        length (summaries (snd (snd (run rt m (tk # tks) now)))) = 1 \<and>
        run rt m (tk # tks) now = run rt m [tk] now)"
proof
  assume a: "running m \<and> sigint tk = InProbe \<and> check_type m \<in> {''http'', ''tcp'', ''icmp''}"
  then obtain oc ev0 where cs: "check_service rt m (probe tk) = Inr (oc, ev0)"
    using check_service_known [of m rt "probe tk"] by auto
  from iteration_in_probe [OF cs] a
  obtain r m' rest where it: "iteration rt m tk = (r, m', ev0 @ Interrupt # rest)"
    and st: "stats m' = record_check (stats m) oc (now_event tk)" and stop: "\<not> running m'"
    by blast
  let ?r = "case r of None \<Rightarrow> Returned | Some e \<Rightarrow> Raised e"
  have lp: "monitor_loop rt m (tk # tks') = (?r, m', ev0 @ Interrupt # rest)" for tks'
    using monitor_loop_cancelled [OF _ it stop] a by simp
  have ended: "fst (monitor_loop rt m (tk # tks')) \<noteq> StillRunning" for tks'
    using lp [of tks'] by (simp del: monitor_loop.simps split: option.splits)
  obtain sm where sm: "print_statistics m' now = Inr [Statistics sm]"
    using print_statistics_Inr by blast
  have ev: "snd (snd (run rt m (tk # tks) now)) = banner m # ev0 @ Interrupt # rest @ [Statistics sm]"
    using run_events_ended [OF ended, of tks now "[Statistics sm]"] sm lp [of tks]
    by (simp del: monitor_loop.simps)
  have same: "run rt m (tk # tks) now = run rt m [tk] now"
    using lp [of tks] lp [of "[]"] by (simp add: run_def del: monitor_loop.simps)
  have mon: "fst (snd (run rt m (tk # tks) now)) = m'"
    using lp [of tks] by (simp add: run_monitor del: monitor_loop.simps)
  show "\<exists>oc ev0 rest.
        check_service rt m (probe tk) = Inr (oc, ev0) \<and>
        snd (snd (run rt m (tk # tks) now)) = banner m # ev0 @ Interrupt # rest \<and>
        stats (fst (snd (run rt m (tk # tks) now))) = record_check (stats m) oc (now_event tk) \<and>
        total_checks (stats (fst (snd (run rt m (tk # tks) now)))) = total_checks (stats m) + 1 \<and>
        \<not> running (fst (snd (run rt m (tk # tks) now))) \<and>
        fst (run rt m (tk # tks) now) \<noteq> StillRunning \<and>
        length (summaries (snd (snd (run rt m (tk # tks) now)))) = 1 \<and>
        run rt m (tk # tks) now = run rt m [tk] now"
  proof (intro exI conjI)
    show "check_service rt m (probe tk) = Inr (oc, ev0)" by (rule cs)
    show "snd (snd (run rt m (tk # tks) now)) = banner m # ev0 @ Interrupt # (rest @ [Statistics sm])"
      using ev by simp
    show c3: "stats (fst (snd (run rt m (tk # tks) now))) = record_check (stats m) oc (now_event tk)"
      unfolding mon by (rule st)
    show "total_checks (stats (fst (snd (run rt m (tk # tks) now)))) = total_checks (stats m) + 1"
      unfolding c3 by (rule total_checks_record_check)
    show "\<not> running (fst (snd (run rt m (tk # tks) now)))"
      unfolding mon by (rule stop)
    show "fst (run rt m (tk # tks) now) \<noteq> StillRunning"
      unfolding run_exit by (rule ended)
    show "length (summaries (snd (snd (run rt m (tk # tks) now)))) = 1"
      by (rule run_summaries_once [OF ended])
    show "run rt m (tk # tks) now = run rt m [tk] now" by (rule same)
  qed
qed

theorem cancellation_in_flight_witness:
  "run example_runtime (example_monitor ''http://example.com'' ''http'')
     [example_tick\<lparr>sigint := InProbe\<rparr>, example_tick] 9 =
   run example_runtime (example_monitor ''http://example.com'' ''http'')
     [example_tick\<lparr>sigint := InProbe\<rparr>] 9 \<and>
   fst (run example_runtime (example_monitor ''http://example.com'' ''http'')
     [example_tick\<lparr>sigint := InProbe\<rparr>, example_tick] 9) = Returned \<and>
   total_checks (stats (fst (snd (run example_runtime (example_monitor ''http://example.com'' ''http'')
     [example_tick\<lparr>sigint := InProbe\<rparr>, example_tick] 9)))) = 1 \<and>
   response_times (stats (fst (snd (run example_runtime (example_monitor ''http://example.com'' ''http'')
     [example_tick\<lparr>sigint := InProbe\<rparr>, example_tick] 9)))) = [20] \<and>
   length (summaries (snd (snd (run example_runtime (example_monitor ''http://example.com'' ''http'')
     [example_tick\<lparr>sigint := InProbe\<rparr>, example_tick] 9)))) = 1"
proof -
  let ?m = "example_monitor ''http://example.com'' ''http''"
  let ?tk = "example_tick\<lparr>sigint := InProbe\<rparr>"
  have pre: "running ?m \<and> sigint ?tk = InProbe \<and> check_type ?m \<in> {''http'', ''tcp'', ''icmp''}"
    by (simp add: ex_defs)
  have cs: "check_service example_runtime ?m (probe ?tk) =
      Inr ((True, 20, None), [HttpGet ''http://example.com'' 5 True])"
    by (simp add: ex_defs check_service_def check_http_def elapsed_ms_def)
  have st0: "stats ?m = MonitorStats_init 0"
    by (simp add: ex_defs)
  have one: "fst (run example_runtime ?m [?tk] 9) = Returned"
    by (simp add: ex_defs model_defs)
  from cancellation_in_flight [of ?m ?tk example_runtime "[example_tick]" 9] pre
  obtain oc ev0 where
    h1: "check_service example_runtime ?m (probe ?tk) = Inr (oc, ev0)" and
    h2: "stats (fst (snd (run example_runtime ?m [?tk, example_tick] 9))) =
           record_check (stats ?m) oc (now_event ?tk)" and
    h3: "total_checks (stats (fst (snd (run example_runtime ?m [?tk, example_tick] 9)))) =
           total_checks (stats ?m) + 1" and
    h4: "length (summaries (snd (snd (run example_runtime ?m [?tk, example_tick] 9)))) = 1" and
    h5: "run example_runtime ?m [?tk, example_tick] 9 = run example_runtime ?m [?tk] 9"
    by blast
  from h1 cs have oc: "oc = (True, 20, None)" by simp
  have "response_times (stats (fst (snd (run example_runtime ?m [?tk, example_tick] 9)))) = [20]"
    unfolding h2 oc st0 by (simp add: record_check.simps MonitorStats_init_def Let_def)
  moreover have "total_checks (stats (fst (snd (run example_runtime ?m [?tk, example_tick] 9)))) = 1"
    unfolding h3 st0 by (simp add: MonitorStats_init_def)
  moreover have "fst (run example_runtime ?m [?tk, example_tick] 9) = Returned"
    unfolding h5 by (rule one)
  ultimately show ?thesis using h4 h5 by simp
qed

end
